theory Spec2Isabelle
  imports Main "HOL-Library.Word"
begin

section \<open>Buffers\<close>

text \<open>
  A Node \<open>Buffer\<close> is a sequence of bytes. The operations of \<open>Buffer\<close> that the
  class \<open>Contracts\<close> uses are \<open>slice\<close>, \<open>alloc\<close>, \<open>concat\<close>, \<open>toString('hex')\<close> and
  \<open>Buffer.from(_, 'hex')\<close>.
\<close>

type_synonym byte = "8 word"
type_synonym Buffer = "byte list"

text \<open>
  \<open>buf.slice(start, end)\<close>: a negative index counts from the end of the buffer, every
  index is clamped to the buffer, a missing \<open>end\<close> is the length, and an empty range
  gives the empty buffer.
\<close>

definition Buffer_slice :: "Buffer \<Rightarrow> int \<Rightarrow> int option \<Rightarrow> Buffer" where
  "Buffer_slice buf start end =
     (let len = int (length buf);
          rel = (\<lambda>i. if i < 0 then max (len + i) 0 else min i len);
          s = rel start;
          e = (case end of None \<Rightarrow> len | Some j \<Rightarrow> rel j)
      in take (nat (e - s)) (drop (nat s) buf))"

definition Buffer_alloc :: "nat \<Rightarrow> Buffer" where
  "Buffer_alloc n = replicate n 0"

definition Buffer_concat :: "Buffer list \<Rightarrow> Buffer" where
  "Buffer_concat bufs = concat bufs"

section \<open>Signature encoder\<close>

text \<open>
  The function that \<open>solidityFormatSignatures\<close> maps over the signatures:
  \<^verbatim>\<open>currentSignature => { const v = currentSignature.slice(-1);
     return Buffer.concat([currentSignature.slice(0, 64), Buffer.alloc(31), v]); }\<close>
\<close>

definition padSignature :: "Buffer \<Rightarrow> Buffer" where
  "padSignature currentSignature =
     (let v = Buffer_slice currentSignature (- 1) None
      in Buffer_concat [Buffer_slice currentSignature 0 (Some 64), Buffer_alloc 31, v])"

definition solidityFormatSignatures :: "Buffer list \<Rightarrow> Buffer" where
  "solidityFormatSignatures signatures =
     (let paddedSignatures = map padSignature signatures
      in Buffer_concat paddedSignatures)"

section \<open>Hexadecimal text\<close>

text \<open>
  \<open>buf.toString('hex')\<close> writes two lower-case digits for every byte.
  \<open>Buffer.from(text, 'hex')\<close> reads the text two digits at a time and stops at the first
  pair that is not two hexadecimal digits; a single trailing character is dropped.
\<close>

definition hexDigit :: "nat \<Rightarrow> char" where
  "hexDigit n = ''0123456789abcdef'' ! (n mod 16)"

definition toHex :: "Buffer \<Rightarrow> string" where
  "toHex buf = concat (map (\<lambda>b. [hexDigit (unat b div 16), hexDigit (unat b mod 16)]) buf)"

definition hexValue :: "char \<Rightarrow> nat option" where
  "hexValue c =
     (let n = (of_char c :: nat)
      in if 48 \<le> n \<and> n \<le> 57 then Some (n - 48)
         else if 97 \<le> n \<and> n \<le> 102 then Some (n - 87)
         else if 65 \<le> n \<and> n \<le> 70 then Some (n - 55)
         else None)"

fun fromHex :: "string \<Rightarrow> Buffer" where
  "fromHex (a # b # rest) =
     (case hexValue a of
        None \<Rightarrow> []
      | Some x \<Rightarrow>
          (case hexValue b of
             None \<Rightarrow> []
           | Some y \<Rightarrow> of_nat (16 * x + y) # fromHex rest))"
| "fromHex [c] = []"
| "fromHex [] = []"

section \<open>Data model\<close>

text \<open>
  An \<open>EthAddress\<close> is used by \<open>Contracts\<close> only through \<open>toString()\<close>; it is
  represented by that text.
\<close>

datatype EthAddress = EthAddress (toString: string)

record EthereumSignature =
  sig_v :: Buffer
  sig_r :: Buffer
  sig_s :: Buffer

record PermitArgs =
  deadline :: int
  approvalAmount :: int
  signature :: EthereumSignature

text \<open>The three JSON interfaces imported from \<open>./artifacts\<close>.\<close>

datatype abi = RollupABI | ERC20ABI | ERC20PermitABI

text \<open>
  \<open>provider.getSigner(addressOrIndex)\<close> names an account of the provider by its
  address or by its index. A contract handle \<open>new Contract(address, abi, signerOrProvider)\<close>
  is connected either to the provider (reads only) or to such a signer.
\<close>

datatype JsonRpcSigner = getSigner_address string | getSigner_index nat

datatype connection = Provider | Signer JsonRpcSigner

datatype Contract =
  Contract (address: string) (interface: abi) (signerOrProvider: connection)

text \<open>
  The state-changing methods of the rollup processor that \<open>Contracts\<close> calls, with their
  arguments in call order. The last argument of \<open>processRollup\<close> is the \<open>gasLimit\<close> of
  the overrides object. The overrides object of \<open>depositPendingFunds\<close> is empty in the
  source (its only entry is commented out) and is left out.
\<close>

datatype transaction_call =
    Call_setSupportedAsset string bool
  | Call_processRollup string Buffer "int list" Buffer "int option"
  | Call_depositPendingFundsPermit int int string string int int Buffer Buffer Buffer
  | Call_depositPendingFunds int int string

record TransactionResponse =
  hash :: string
  confirmations :: int
  blockNumber :: "nat option"
  data :: string
  timestamp :: "int option"

record Event =
  eventRollupId :: int
  eventBlockNumber :: nat
  transactionHash :: string

datatype event_filter = RollupProcessed "int option"

record EthBlock =
  number :: nat
  blockTimestamp :: int

text \<open>
  The \<open>Block\<close> of \<open>./blockchain\<close>. \<open>created\<close> is the time value of the \<open>Date\<close>
  in milliseconds; \<open>None\<close> is the invalid date.
\<close>

record Block =
  created :: "int option"
  txHash :: Buffer
  rollupProofData :: Buffer
  viewingKeysData :: Buffer
  rollupId :: int
  rollupSize :: int

text \<open>
  A call that the provider answers either rejects (network failure, revert) or resolves
  with a value. Other failures arise in \<open>Contracts\<close>
  itself: a \<open>TypeError\<close> for a property read on \<open>undefined\<close> or for the call of a
  method that a handle does not have, and the exceptions of the two decoders used by
  \<open>decodeBlock\<close>.
\<close>

datatype call_error = CallError string

datatype error = Rejected call_error | TypeError | ParseError | RangeError

text \<open>
  Everything outside \<open>Contracts\<close> that its methods consult: the answers of the chain
  behind the provider to each read, to each submitted transaction and to each query, the
  decoder of call data of the \<open>ethers\<close> interface
  (\<open>parseTransaction\<close>, giving the arguments \<open>proofData\<close> and \<open>viewingKeys\<close> as
  \<open>0x\<close>-prefixed text, or \<open>None\<close> where it throws) and the two accessors of
  \<open>RollupProofData\<close> (\<open>None\<close> where they throw).
\<close>

record chain =
  read_getSupportedAssets :: "Contract \<Rightarrow> call_error + string list"
  read_getAssetPermitSupport :: "Contract \<Rightarrow> nat \<Rightarrow> call_error + bool"
  read_balanceOf :: "Contract \<Rightarrow> string \<Rightarrow> call_error + int"
  read_nonces :: "Contract \<Rightarrow> string \<Rightarrow> call_error + int"
  read_allowance :: "Contract \<Rightarrow> string \<Rightarrow> string \<Rightarrow> call_error + int"
  sendTransaction :: "Contract \<Rightarrow> transaction_call \<Rightarrow> call_error + TransactionResponse"
  queryFilter :: "Contract \<Rightarrow> event_filter \<Rightarrow> nat option \<Rightarrow> call_error + Event list"
  getTransaction :: "Event \<Rightarrow> call_error + TransactionResponse"
  getBlock :: "nat option \<Rightarrow> call_error + EthBlock"
  parseTransaction :: "string \<Rightarrow> (string \<times> string) option"
  getRollupIdFromBuffer :: "Buffer \<Rightarrow> int option"
  getRollupSizeFromBuffer :: "Buffer \<Rightarrow> int option"

text \<open>
  The fields of the class. Its \<open>provider\<close> field is the one \<open>Web3Provider\<close> made by the
  constructor, which the handles refer to as \<open>Provider\<close>.
\<close>

record Contracts =
  rollupContractAddress :: EthAddress
  rollupProcessor :: Contract
  erc20Contracts :: "Contract list"

section \<open>Promises\<close>

text \<open>
  \<open>await\<close> of a call on the provider: a rejection is thrown, a value is returned.
\<close>

definition await :: "call_error + 'a \<Rightarrow> error + 'a" where
  "await p = (case p of Inl e \<Rightarrow> Inl (Rejected e) | Inr x \<Rightarrow> Inr x)"

text \<open>
  \<open>Promise.all\<close> over promises that settle in some order. It keeps an array of slots,
  one for each promise, initially unset. When promise \<open>i\<close> fulfils, its value is
  stored in slot \<open>i\<close>; when one rejects, the whole rejects with that reason at once.
  After the last one has fulfilled the array is the result. The order in which the
  promises settle is given by the time \<open>finishedAt i\<close> at which promise \<open>i\<close> settles
  (promises that settle at the same time are taken in index order). This order names
  every index below the number of promises once, so \<open>promises ! i\<close> is inside the
  list and no slot is unset at the end.
\<close>

fun settle :: "nat list \<Rightarrow> ('e + 'a) list \<Rightarrow> 'a option list \<Rightarrow> 'e + 'a option list" where
  "settle [] promises slots = Inr slots"
| "settle (i # order) promises slots =
     (case promises ! i of
        Inl e \<Rightarrow> Inl e
      | Inr x \<Rightarrow> settle order promises (slots[i := Some x]))"

definition completionOrder :: "(nat \<Rightarrow> nat) \<Rightarrow> nat \<Rightarrow> nat list" where
  "completionOrder finishedAt n = sort_key finishedAt [0..<n]"

definition promiseAll :: "(nat \<Rightarrow> nat) \<Rightarrow> ('e + 'a) list \<Rightarrow> 'e + 'a list" where
  "promiseAll finishedAt promises =
     (case settle (completionOrder finishedAt (length promises)) promises
             (replicate (length promises) None) of
        Inl e \<Rightarrow> Inl e
      | Inr slots \<Rightarrow> Inr (map the slots))"

text \<open>
  \<open>xs.map(f)\<close> where \<open>f\<close> may throw: the first exception, in index order, ends the map.
\<close>

fun mapThrowing :: "('a \<Rightarrow> 'e + 'b) \<Rightarrow> 'a list \<Rightarrow> 'e + 'b list" where
  "mapThrowing f [] = Inr []"
| "mapThrowing f (x # xs) =
     (case f x of
        Inl e \<Rightarrow> Inl e
      | Inr y \<Rightarrow> (case mapThrowing f xs of Inl e \<Rightarrow> Inl e | Inr ys \<Rightarrow> Inr (y # ys)))"

text \<open>
  \<open>xs[i]\<close> on a JavaScript array: \<open>undefined\<close> (here \<open>None\<close>) outside the array.
\<close>

definition arrayIndex :: "'a list \<Rightarrow> int \<Rightarrow> 'a option" where
  "arrayIndex xs i = (if 0 \<le> i \<and> i < int (length xs) then Some (xs ! nat i) else None)"

section \<open>The class Contracts\<close>

definition constructor :: "EthAddress \<Rightarrow> Contracts" where
  "constructor rollupContractAddress' =
     \<lparr> rollupContractAddress = rollupContractAddress',
       rollupProcessor = Contract (toString rollupContractAddress') RollupABI Provider,
       erc20Contracts = [] \<rparr>"

text \<open>
  \<open>init\<close> replaces the cached handles by one handle for each supported asset, made from
  the permit-aware interface where the processor reports permit support.
\<close>

definition init :: "chain \<Rightarrow> (nat \<Rightarrow> nat) \<Rightarrow> Contracts \<Rightarrow> (error + unit) \<times> Contracts" where
  "init ch finishedAt this =
     (case await (read_getSupportedAssets ch (rollupProcessor this)) of
        Inl e \<Rightarrow> (Inl e, this)
      | Inr assetAddresses \<Rightarrow>
          (case await (promiseAll finishedAt
                  (map (\<lambda>(index, a).
                          case read_getAssetPermitSupport ch (rollupProcessor this) index of
                            Inl e \<Rightarrow> Inl e
                          | Inr assetPermitSupport \<Rightarrow>
                              (let newContractABI =
                                     (if assetPermitSupport then ERC20PermitABI else ERC20ABI)
                               in Inr (Contract a newContractABI Provider)))
                       (enumerate 0 assetAddresses))) of
             Inl e \<Rightarrow> (Inl e, this)
           | Inr handles \<Rightarrow> (Inr (), this\<lparr>erc20Contracts := handles\<rparr>)))"

text \<open>
  The methods that submit a transaction return, besides their result, the requests they
  made of the provider: the handle (address, interface, signer) and the method call.
\<close>

definition setSupportedAsset ::
  "chain \<Rightarrow> Contracts \<Rightarrow> EthAddress \<Rightarrow> bool \<Rightarrow> EthAddress option \<Rightarrow>
   (error + Buffer) \<times> Contracts \<times> (Contract \<times> transaction_call) list" where
  "setSupportedAsset ch this assetAddress supportsPermit signingAddress =
     (let signer = (case signingAddress of
                      Some a \<Rightarrow> getSigner_address (toString a)
                    | None \<Rightarrow> getSigner_index 0);
          rollupProcessor' = Contract (toString (rollupContractAddress this)) RollupABI (Signer signer);
          call = Call_setSupportedAsset (toString assetAddress) supportsPermit
      in case await (sendTransaction ch rollupProcessor' call) of
           Inl e \<Rightarrow> (Inl e, this, [(rollupProcessor', call)])
         | Inr tx \<Rightarrow>
             (let newContractABI = (if supportsPermit then ERC20PermitABI else ERC20ABI)
              in (Inr (fromHex (drop 2 (hash tx))),
                  this\<lparr>erc20Contracts :=
                         erc20Contracts this @
                         [Contract (toString assetAddress) newContractABI Provider]\<rparr>,
                  [(rollupProcessor', call)])))"

definition sendRollupProof ::
  "chain \<Rightarrow> Contracts \<Rightarrow> Buffer \<Rightarrow> Buffer list \<Rightarrow> int list \<Rightarrow> Buffer list \<Rightarrow>
   EthAddress option \<Rightarrow> int option \<Rightarrow>
   (error + Buffer) \<times> (Contract \<times> transaction_call) list" where
  "sendRollupProof ch this proofData signatures sigIndexes viewingKeys signingAddress gasLimit =
     (let signer = (case signingAddress of
                      Some a \<Rightarrow> getSigner_address (toString a)
                    | None \<Rightarrow> getSigner_index 0);
          rollupProcessor' = Contract (toString (rollupContractAddress this)) RollupABI (Signer signer);
          formattedSignatures = solidityFormatSignatures signatures;
          call = Call_processRollup (''0x'' @ toHex proofData) formattedSignatures sigIndexes
                   (Buffer_concat viewingKeys) gasLimit
      in (case await (sendTransaction ch rollupProcessor' call) of
            Inl e \<Rightarrow> Inl e
          | Inr tx \<Rightarrow> Inr (fromHex (drop 2 (hash tx))),
          [(rollupProcessor', call)]))"

definition depositPendingFunds ::
  "chain \<Rightarrow> Contracts \<Rightarrow> int \<Rightarrow> int \<Rightarrow> EthAddress \<Rightarrow> PermitArgs option \<Rightarrow>
   (error + Buffer) \<times> (Contract \<times> transaction_call) list" where
  "depositPendingFunds ch this assetId amount depositorAddress permitArgs =
     (let signer = getSigner_address (toString depositorAddress);
          rollupProcessor' = Contract (toString (rollupContractAddress this)) RollupABI (Signer signer);
          call = (case permitArgs of
                    Some p \<Rightarrow>
                      Call_depositPendingFundsPermit assetId amount (toString depositorAddress)
                        (address (rollupProcessor this)) (approvalAmount p) (deadline p)
                        (sig_v (signature p)) (sig_r (signature p)) (sig_s (signature p))
                  | None \<Rightarrow>
                      Call_depositPendingFunds assetId amount (toString depositorAddress))
      in (case await (sendTransaction ch rollupProcessor' call) of
            Inl e \<Rightarrow> Inl e
          | Inr tx \<Rightarrow> Inr (fromHex (drop 2 (hash tx))),
          [(rollupProcessor', call)]))"

text \<open>
  \<open>new Date(ms)\<close>: a time value of more than 8.64e15 milliseconds before or after the
  epoch gives the invalid date.
\<close>

definition newDate :: "int \<Rightarrow> int option" where
  "newDate ms =
     (if - 8640000000000000 \<le> ms \<and> ms \<le> 8640000000000000 then Some ms else None)"

text \<open>
  \<open>decodeBlock\<close> recovers the block from the call data of the transaction and the
  time stamp that \<open>getRollupBlocksFrom\<close> has put into it. A transaction without a time
  stamp gives \<open>new Date(undefined * 1000)\<close>, the invalid date.
\<close>

definition decodeBlock :: "chain \<Rightarrow> TransactionResponse \<Rightarrow> error + Block" where
  "decodeBlock ch tx =
     (case parseTransaction ch (data tx) of
        None \<Rightarrow> Inl ParseError
      | Some (proofDataArg, viewingKeysArg) \<Rightarrow>
          (let rollupProofData' = fromHex (drop 2 proofDataArg);
               viewingKeysData' = fromHex (drop 2 viewingKeysArg)
           in case getRollupIdFromBuffer ch rollupProofData' of
                None \<Rightarrow> Inl RangeError
              | Some rollupId' \<Rightarrow>
                  (case getRollupSizeFromBuffer ch rollupProofData' of
                     None \<Rightarrow> Inl RangeError
                   | Some rollupSize' \<Rightarrow>
                       Inr \<lparr> created = (case timestamp tx of
                                          None \<Rightarrow> None
                                        | Some t \<Rightarrow> newDate (t * 1000)),
                             txHash = fromHex (drop 2 (hash tx)),
                             rollupProofData = rollupProofData',
                             viewingKeysData = viewingKeysData',
                             rollupId = rollupId',
                             rollupSize = rollupSize' \<rparr>)))"

text \<open>
  \<open>getRollupBlocksFrom\<close>. The two arguments \<open>txFinishedAt\<close> and \<open>blockFinishedAt\<close>
  give the order in which the concurrent lookups of the two \<open>Promise.all\<close> calls settle.
  \<open>blocks\<close> has one entry for each of \<open>txs\<close>, so \<open>blocks[i]\<close> is inside the array.
  \<open>minConfirmations\<close> and the confirmations of a transaction are integers.
\<close>

definition getRollupBlocksFrom ::
  "chain \<Rightarrow> (nat \<Rightarrow> nat) \<Rightarrow> (nat \<Rightarrow> nat) \<Rightarrow> Contracts \<Rightarrow> int \<Rightarrow> int \<Rightarrow> error + Block list" where
  "getRollupBlocksFrom ch txFinishedAt blockFinishedAt this rollupId' minConfirmations =
     (let rollupFilter = RollupProcessed (Some rollupId')
      in case await (queryFilter ch (rollupProcessor this) rollupFilter None) of
           Inl e \<Rightarrow> Inl e
         | Inr matching \<Rightarrow>
             (case matching of
                [] \<Rightarrow> Inr []
              | rollupEvent # _ \<Rightarrow>
                  (let filter' = RollupProcessed None
                   in case await (queryFilter ch (rollupProcessor this) filter'
                                    (Some (eventBlockNumber rollupEvent))) of
                        Inl e \<Rightarrow> Inl e
                      | Inr rollupEvents \<Rightarrow>
                          (case await (promiseAll txFinishedAt
                                         (map (getTransaction ch) rollupEvents)) of
                             Inl e \<Rightarrow> Inl e
                           | Inr fetched \<Rightarrow>
                               (let txs = filter (\<lambda>tx. confirmations tx \<ge> minConfirmations) fetched
                                in case await (promiseAll blockFinishedAt
                                                 (map (\<lambda>tx. getBlock ch (blockNumber tx)) txs)) of
                                     Inl e \<Rightarrow> Inl e
                                   | Inr blocks \<Rightarrow>
                                       mapThrowing
                                         (\<lambda>(i, tx). decodeBlock ch
                                            (tx\<lparr>timestamp := Some (blockTimestamp (blocks ! i))\<rparr>))
                                         (enumerate 0 txs))))))"

text \<open>
  The three reads on a cached asset handle. \<open>this.erc20Contracts[assetId]\<close> is
  \<open>undefined\<close> outside the cache, and the method read on it throws a \<open>TypeError\<close>
  before any call is made. Both token interfaces have \<open>balanceOf\<close> and \<open>allowance\<close>;
  only the permit-aware one has \<open>nonces\<close>, so on a handle made from another interface
  \<open>tokenPermitContract.nonces\<close> is \<open>undefined\<close> and calling it throws a \<open>TypeError\<close>,
  again before any call is made.
\<close>

definition getAssetBalance :: "chain \<Rightarrow> Contracts \<Rightarrow> int \<Rightarrow> EthAddress \<Rightarrow> error + int" where
  "getAssetBalance ch this assetId address' =
     (case arrayIndex (erc20Contracts this) assetId of
        None \<Rightarrow> Inl TypeError
      | Some erc20 \<Rightarrow> await (read_balanceOf ch erc20 (toString address')))"

definition getUserNonce :: "chain \<Rightarrow> Contracts \<Rightarrow> int \<Rightarrow> EthAddress \<Rightarrow> error + int" where
  "getUserNonce ch this assetId address' =
     (let tokenPermitContract = arrayIndex (erc20Contracts this) assetId
      in case tokenPermitContract of
           None \<Rightarrow> Inl TypeError
         | Some erc20 \<Rightarrow>
             (if interface erc20 = ERC20PermitABI
              then await (read_nonces ch erc20 (toString address'))
              else Inl TypeError))"

definition getAssetAllowance :: "chain \<Rightarrow> Contracts \<Rightarrow> int \<Rightarrow> EthAddress \<Rightarrow> error + int" where
  "getAssetAllowance ch this assetId address' =
     (case arrayIndex (erc20Contracts this) assetId of
        None \<Rightarrow> Inl TypeError
      | Some erc20 \<Rightarrow>
          await (read_allowance ch erc20 (toString address')
                   (toString (rollupContractAddress this))))"

section \<open>Vocabulary of the properties\<close>

text \<open>The two shapes of a deposit call, and the spender argument of the permit shape.\<close>

fun isPermitDeposit :: "transaction_call \<Rightarrow> bool" where
  "isPermitDeposit (Call_depositPendingFundsPermit _ _ _ _ _ _ _ _ _) = True"
| "isPermitDeposit _ = False"

fun isPlainDeposit :: "transaction_call \<Rightarrow> bool" where
  "isPlainDeposit (Call_depositPendingFunds _ _ _) = True"
| "isPlainDeposit _ = False"

fun permitSpender :: "transaction_call \<Rightarrow> string option" where
  "permitSpender (Call_depositPendingFundsPermit _ _ _ spender _ _ _ _ _) = Some spender"
| "permitSpender _ = None"

text \<open>
  The states of a \<open>Contracts\<close> object: what the constructor makes, and what the two
  methods that assign to its fields, \<open>init\<close> and \<open>setSupportedAsset\<close>, make of such a
  state.
\<close>

inductive reachable :: "Contracts \<Rightarrow> bool" where
  reachable_constructor: "reachable (constructor a)"
| reachable_init: "reachable this \<Longrightarrow> reachable (snd (init ch finishedAt this))"
| reachable_setSupportedAsset:
    "reachable this \<Longrightarrow>
     reachable (fst (snd (setSupportedAsset ch this a supportsPermit signingAddress)))"

text \<open>
  The rollup id that the proof data in the call data of a transaction carries
  (\<open>None\<close> where the call data or the proof data cannot be decoded).
\<close>

definition proofRollupId :: "chain \<Rightarrow> TransactionResponse \<Rightarrow> int option" where
  "proofRollupId ch tx =
     (case parseTransaction ch (data tx) of
        None \<Rightarrow> None
      | Some (proofDataArg, viewingKeysArg) \<Rightarrow>
          getRollupIdFromBuffer ch (fromHex (drop 2 proofDataArg)))"

section \<open>An example chain\<close>

text \<open>
  A chain with two supported assets (the second with permit support) and three processed
  rollups 3, 4 and 5, in blocks 10, 15 and 19 of a chain whose head is block 19, so that
  their transactions have 10, 5 and 1 confirmations. The call data of a transaction is
  here its proof data, whose first byte is the rollup id.
\<close>

definition exampleEvents :: "Event list" where
  "exampleEvents =
     [\<lparr> eventRollupId = 3, eventBlockNumber = 10, transactionHash = ''0x03aa'' \<rparr>,
      \<lparr> eventRollupId = 4, eventBlockNumber = 15, transactionHash = ''0x04bb'' \<rparr>,
      \<lparr> eventRollupId = 5, eventBlockNumber = 19, transactionHash = ''0x05cc'' \<rparr>]"

definition exampleTransaction :: "Event \<Rightarrow> TransactionResponse" where
  "exampleTransaction e =
     \<lparr> hash = transactionHash e, confirmations = 20 - int (eventBlockNumber e),
       blockNumber = Some (eventBlockNumber e), data = transactionHash e,
       timestamp = None \<rparr>"

definition exampleChain :: chain where
  "exampleChain =
     \<lparr> read_getSupportedAssets = (\<lambda>c. Inr [''0xa1'', ''0xa2'']),
       read_getAssetPermitSupport = (\<lambda>c index. Inr (index = 1)),
       read_balanceOf = (\<lambda>c holder. Inr 100),
       read_nonces = (\<lambda>c holder. Inr 7),
       read_allowance = (\<lambda>c holder spender. Inr 50),
       sendTransaction = (\<lambda>c call.
          Inr \<lparr> hash = ''0x00ff'', confirmations = 0, blockNumber = None,
                data = ''0x'', timestamp = None \<rparr>),
       queryFilter = (\<lambda>c f fromBlock.
          case f of
            RollupProcessed (Some rid) \<Rightarrow> Inr (filter (\<lambda>e. eventRollupId e = rid) exampleEvents)
          | RollupProcessed None \<Rightarrow>
              Inr (filter (\<lambda>e. case fromBlock of None \<Rightarrow> True | Some b \<Rightarrow> b \<le> eventBlockNumber e)
                     exampleEvents)),
       getTransaction = (\<lambda>e. Inr (exampleTransaction e)),
       getBlock = (\<lambda>tag.
          case tag of
            None \<Rightarrow> Inl (CallError ''no block'')
          | Some n \<Rightarrow> Inr \<lparr> number = n, blockTimestamp = 1600000000 + 15 * int n \<rparr>),
       parseTransaction = (\<lambda>d. Some (d, ''0x'')),
       getRollupIdFromBuffer = (\<lambda>buf. case buf of [] \<Rightarrow> None | b # _ \<Rightarrow> Some (uint b)),
       getRollupSizeFromBuffer = (\<lambda>buf. Some 1) \<rparr>"

definition examplePermit :: PermitArgs where
  "examplePermit =
     \<lparr> deadline = 1700000000, approvalAmount = 500,
       signature = \<lparr> sig_v = [27], sig_r = replicate 32 1, sig_s = replicate 32 2 \<rparr> \<rparr>"

section \<open>Properties of the signature encoder\<close>

lemma padSignature_65:
  assumes "length sg = 65"
  shows "padSignature sg = take 64 sg @ replicate 31 0 @ [sg ! 64]"
proof -
  have "drop 64 sg = [sg ! 64]"
    using assms by (simp add: list_eq_iff_nth_eq)
  then show ?thesis
    using assms
    by (simp add: padSignature_def Buffer_slice_def Buffer_alloc_def Buffer_concat_def)
qed

lemma length_padSignature_65: "length sg = 65 \<Longrightarrow> length (padSignature sg) = 96"
  by (simp add: padSignature_65)

lemma solidityFormatSignatures_append:
  "solidityFormatSignatures (xs @ ys) = solidityFormatSignatures xs @ solidityFormatSignatures ys"
  by (simp add: solidityFormatSignatures_def Buffer_concat_def)

lemma solidityFormatSignatures_Cons:
  "solidityFormatSignatures (x # xs) = padSignature x @ solidityFormatSignatures xs"
  by (simp add: solidityFormatSignatures_def Buffer_concat_def)

lemma solidityFormatSignatures_Nil: "solidityFormatSignatures [] = []"
  by (simp add: solidityFormatSignatures_def Buffer_concat_def)

lemma length_solidityFormatSignatures:
  "\<forall>sg\<in>set signatures. length sg = 65 \<Longrightarrow>
   length (solidityFormatSignatures signatures) = 96 * length signatures"
  by (induction signatures)
     (simp_all add: solidityFormatSignatures_Nil solidityFormatSignatures_Cons
        length_padSignature_65)

lemma solidityFormatSignatures_block:
  assumes "\<forall>sg\<in>set signatures. length sg = 65" and "i < length signatures"
  shows "take 96 (drop (96 * i) (solidityFormatSignatures signatures)) =
         padSignature (signatures ! i)"
proof -
  let ?pre = "take i signatures" and ?post = "drop (Suc i) signatures"
  have split: "signatures = ?pre @ signatures ! i # ?post"
    using assms(2) by (simp add: id_take_nth_drop)
  have "\<forall>sg\<in>set ?pre. length sg = 65"
    using assms(1) by (auto dest: in_set_takeD)
  then have pre: "length (solidityFormatSignatures ?pre) = 96 * i"
    using assms(2) by (simp add: length_solidityFormatSignatures)
  have len: "length (padSignature (signatures ! i)) = 96"
    using assms by (simp add: length_padSignature_65)
  have "solidityFormatSignatures signatures =
        solidityFormatSignatures ?pre @ padSignature (signatures ! i) @
        solidityFormatSignatures ?post"
    by (subst split)
       (simp only: solidityFormatSignatures_append solidityFormatSignatures_Cons)
  then show ?thesis
    using pre len by simp
qed

text \<open>
  Claim C1. Wherever a 65-byte signature stands in the input sequence, the result holds
  an encoding of it, between the encodings of the signatures before and after it, that is
  96 bytes long: its first 64 bytes are the first 64 bytes of the signature, its bytes
  64 to 94 are zero, and its byte 95 is the 65th byte of the signature.
\<close>

theorem solidityFormatSignatures_layout:
  assumes "length sg = 65"
  shows "solidityFormatSignatures (pre @ sg # post) =
           solidityFormatSignatures pre @ padSignature sg @ solidityFormatSignatures post
         \<and> length (padSignature sg) = 96
         \<and> take 64 (padSignature sg) = take 64 sg
         \<and> (\<forall>k. 64 \<le> k \<and> k < 95 \<longrightarrow> padSignature sg ! k = 0)
         \<and> padSignature sg ! 95 = sg ! 64"
proof -
  have enc: "padSignature sg = take 64 sg @ replicate 31 0 @ [sg ! 64]"
    using assms by (rule padSignature_65)
  have l64: "length (take 64 sg) = 64"
    using assms by simp
  have zeros: "padSignature sg ! k = 0" if "64 \<le> k" "k < 95" for k
  proof -
    have "padSignature sg ! k = (replicate 31 0 @ [sg ! 64]) ! (k - 64)"
      using that l64 by (simp add: enc nth_append)
    also have "\<dots> = 0"
    proof -
      have "k - 64 < 31" using that by arith
      then show ?thesis by (simp add: nth_append)
    qed
    finally show ?thesis .
  qed
  have last: "padSignature sg ! 95 = sg ! 64"
    using l64 by (simp add: enc nth_append)
  show ?thesis
    using assms zeros last
    by (simp add: solidityFormatSignatures_append solidityFormatSignatures_Cons
          length_padSignature_65 enc)
qed

theorem solidityFormatSignatures_layout_witness:
  "length (map of_nat [1..<65] @ [27 :: byte]) = 65
   \<and> solidityFormatSignatures [map of_nat [1..<65] @ [27]] =
       map of_nat [1..<65] @ replicate 31 0 @ [27]
   \<and> padSignature (map of_nat [1..<65] @ [27]) ! 95 = 27"
  using solidityFormatSignatures_layout [of "map of_nat [1..<65] @ [27]" "[]" "[]"]
  by (simp add: solidityFormatSignatures_Nil nth_append padSignature_65)

text \<open>
  Claim C2. When every one of the \<open>n\<close> signatures is 65 bytes long, the result is
  \<open>96 * n\<close> bytes long and its bytes from \<open>96 * i\<close> up to \<open>96 * (i + 1)\<close> are the
  encoding of signature \<open>i\<close> alone. These bytes stay what they are when more signatures
  follow, and the encoding of a concatenation is the concatenation of the encodings.
\<close>

theorem solidityFormatSignatures_homomorphism:
  assumes "\<forall>sg\<in>set signatures. length sg = 65"
  shows "length (solidityFormatSignatures signatures) = 96 * length signatures
         \<and> (\<forall>i<length signatures.
               take 96 (drop (96 * i) (solidityFormatSignatures signatures)) =
               padSignature (signatures ! i))
         \<and> (\<forall>more. \<forall>i<length signatures.
               take 96 (drop (96 * i) (solidityFormatSignatures (signatures @ more))) =
               take 96 (drop (96 * i) (solidityFormatSignatures signatures)))
         \<and> (\<forall>more. solidityFormatSignatures (signatures @ more) =
               solidityFormatSignatures signatures @ solidityFormatSignatures more)"
proof -
  have len: "length (solidityFormatSignatures signatures) = 96 * length signatures"
    using assms by (rule length_solidityFormatSignatures)
  have blk: "take 96 (drop (96 * i) (solidityFormatSignatures signatures)) =
             padSignature (signatures ! i)" if "i < length signatures" for i
    using assms that by (rule solidityFormatSignatures_block)
  have ext: "take 96 (drop (96 * i) (solidityFormatSignatures (signatures @ more))) =
             take 96 (drop (96 * i) (solidityFormatSignatures signatures))"
    if "i < length signatures" for i more
  proof -
    have "96 * i + 96 \<le> length (solidityFormatSignatures signatures)"
      using that len by simp
    then show ?thesis
      by (simp add: solidityFormatSignatures_append)
  qed
  show ?thesis
    using len blk ext by (simp add: solidityFormatSignatures_append)
qed

theorem solidityFormatSignatures_homomorphism_witness:
  "length (replicate 64 1 @ [27 :: byte]) = 65
   \<and> length (replicate 64 2 @ [28 :: byte]) = 65
   \<and> length (solidityFormatSignatures [replicate 64 1 @ [27], replicate 64 2 @ [28]]) = 192
   \<and> take 96 (drop 96 (solidityFormatSignatures [replicate 64 1 @ [27], replicate 64 2 @ [28]]))
       = replicate 64 2 @ replicate 31 0 @ [28]"
proof -
  let ?sigs = "[replicate 64 1 @ [27 :: byte], replicate 64 2 @ [28]]"
  have h: "\<forall>sg\<in>set ?sigs. length sg = 65" by simp
  have "1 < length ?sigs" by simp
  with solidityFormatSignatures_homomorphism [OF h]
  have "take 96 (drop (96 * 1) (solidityFormatSignatures ?sigs)) = padSignature (?sigs ! 1)"
    and "length (solidityFormatSignatures ?sigs) = 96 * length ?sigs"
    by blast+
  then show ?thesis by (simp add: padSignature_65 nth_append)
qed

section \<open>Promises, maps and reachable states\<close>

lemma await_Inr_iff: "await p = Inr x \<longleftrightarrow> p = Inr x"
  by (cases p) (simp_all add: await_def)

lemma await_not_TypeError: "await p \<noteq> Inl TypeError"
  by (cases p) (simp_all add: await_def)

lemma settle_Inr:
  "settle order promises slots = Inr res \<Longrightarrow>
   (\<forall>i\<in>set order. \<exists>x. promises ! i = Inr x) \<and> length res = length slots \<and>
   (\<forall>j<length slots. res ! j = (if j \<in> set order then Some (projr (promises ! j)) else slots ! j))"
proof (induction order arbitrary: slots)
  case Nil
  then show ?case by simp
next
  case (Cons i order)
  from Cons.prems obtain x where x: "promises ! i = Inr x"
    and rest: "settle order promises (slots[i := Some x]) = Inr res"
    by (cases "promises ! i") simp_all
  from Cons.IH [OF rest] x show ?case
    by (auto simp add: nth_list_update)
qed

lemma settle_total:
  "\<forall>i\<in>set order. \<exists>x. promises ! i = Inr x \<Longrightarrow> \<exists>res. settle order promises slots = Inr res"
  by (induction order arbitrary: slots) auto

lemma set_completionOrder: "set (completionOrder finishedAt n) = {0..<n}"
  by (simp add: completionOrder_def)

lemma promiseAll_Inr_D:
  assumes "promiseAll finishedAt promises = Inr vs"
  shows "promises = map Inr vs"
proof -
  let ?n = "length promises"
  from assms obtain res
    where res: "settle (completionOrder finishedAt ?n) promises (replicate ?n None) = Inr res"
      and vs: "vs = map the res"
    by (auto simp add: promiseAll_def split: sum.splits)
  from settle_Inr [OF res]
  have all: "\<forall>i<?n. \<exists>x. promises ! i = Inr x"
    and len: "length res = ?n"
    and filled: "\<forall>j<?n. res ! j = Some (projr (promises ! j))"
    by (simp_all add: set_completionOrder)
  show ?thesis
  proof (rule nth_equalityI)
    show "length promises = length (map Inr vs)"
      using len vs by simp
  next
    fix i assume i: "i < length promises"
    with all obtain x where x: "promises ! i = Inr x" by blast
    with filled i len vs show "promises ! i = map Inr vs ! i"
      by simp
  qed
qed

lemma promiseAll_Inr_iff:
  "promiseAll finishedAt promises = Inr vs \<longleftrightarrow> promises = map Inr vs"
proof
  assume "promiseAll finishedAt promises = Inr vs"
  then show "promises = map Inr vs" by (rule promiseAll_Inr_D)
next
  assume eq: "promises = map Inr vs"
  then have "\<forall>i\<in>set (completionOrder finishedAt (length promises)). \<exists>x. promises ! i = Inr x"
    by (simp add: set_completionOrder)
  from settle_total [OF this] obtain res
    where "settle (completionOrder finishedAt (length promises)) promises
             (replicate (length promises) None) = Inr res"
    by blast
  then have r: "promiseAll finishedAt promises = Inr (map the res)"
    by (simp add: promiseAll_def)
  from promiseAll_Inr_D [OF r] eq have "map Inr (map the res) = (map Inr vs :: ('a + 'b) list)"
    by simp
  then have "map the res = vs"
    using inj_map_eq_map [of "Inr :: 'b \<Rightarrow> 'a + 'b" "map the res" vs]
    by (simp del: map_map)
  with r show "promiseAll finishedAt promises = Inr vs" by simp
qed

lemma mapThrowing_Inr_iff:
  "mapThrowing f xs = Inr ys \<longleftrightarrow> map f xs = map Inr ys"
proof (induction xs arbitrary: ys)
  case Nil
  show ?case by auto
next
  case (Cons x xs)
  show ?case
  proof (cases "f x")
    case (Inl e)
    then show ?thesis by (cases ys) auto
  next
    case (Inr y)
    show ?thesis
    proof (cases "mapThrowing f xs")
      case (Inl e)
      with Inr Cons.IH show ?thesis 
        by (cases ys) auto
    next
      case r: (Inr zs)
      with Inr Cons.IH [of zs] Cons.IH show ?thesis
        by (cases ys) auto
    qed
  qed
qed


lemma mapThrowing_enumerate_Inr_iff:
  "mapThrowing (\<lambda>(i, x). g i x) (enumerate 0 xs) = Inr ys \<longleftrightarrow>
   length ys = length xs \<and> (\<forall>i<length xs. g i (xs ! i) = Inr (ys ! i))"
proof -
  have "mapThrowing (\<lambda>(i, x). g i x) (enumerate 0 xs) = Inr ys \<longleftrightarrow>
        map (\<lambda>(i, x). g i x) (enumerate 0 xs) = map Inr ys"
    by (rule mapThrowing_Inr_iff)
  also have "\<dots> \<longleftrightarrow> length ys = length xs \<and> (\<forall>i<length xs. g i (xs ! i) = Inr (ys ! i))"
    by (auto simp add: list_eq_iff_nth_eq nth_enumerate_eq)
  finally show ?thesis .
qed

lemma promiseAll_map_Inr: "promiseAll finishedAt (map Inr vs) = Inr vs"
  by (simp add: promiseAll_Inr_iff)

lemma getRollupBlocksFrom_Inr_iff:
  assumes q1: "queryFilter ch (rollupProcessor this) (RollupProcessed (Some rid)) None =
                 Inr (rollupEvent # others)"
      and q2: "queryFilter ch (rollupProcessor this) (RollupProcessed None)
                 (Some (eventBlockNumber rollupEvent)) = Inr rollupEvents"
  shows "getRollupBlocksFrom ch txFinishedAt blockFinishedAt this rid minConfirmations = Inr result
         \<longleftrightarrow>
         (\<exists>fetched blocks.
            map (getTransaction ch) rollupEvents = map Inr fetched \<and>
            map (\<lambda>tx. getBlock ch (blockNumber tx))
              (filter (\<lambda>tx. minConfirmations \<le> confirmations tx) fetched) = map Inr blocks \<and>
            length result = length (filter (\<lambda>tx. minConfirmations \<le> confirmations tx) fetched) \<and>
            (\<forall>i<length (filter (\<lambda>tx. minConfirmations \<le> confirmations tx) fetched).
               decodeBlock ch
                 ((filter (\<lambda>tx. minConfirmations \<le> confirmations tx) fetched ! i)
                    \<lparr>timestamp := Some (blockTimestamp (blocks ! i))\<rparr>) = Inr (result ! i)))"
proof
  assume "getRollupBlocksFrom ch txFinishedAt blockFinishedAt this rid minConfirmations = Inr result"
  with q1 q2 show "\<exists>fetched blocks.
            map (getTransaction ch) rollupEvents = map Inr fetched \<and>
            map (\<lambda>tx. getBlock ch (blockNumber tx))
              (filter (\<lambda>tx. minConfirmations \<le> confirmations tx) fetched) = map Inr blocks \<and>
            length result = length (filter (\<lambda>tx. minConfirmations \<le> confirmations tx) fetched) \<and>
            (\<forall>i<length (filter (\<lambda>tx. minConfirmations \<le> confirmations tx) fetched).
               decodeBlock ch
                 ((filter (\<lambda>tx. minConfirmations \<le> confirmations tx) fetched ! i)
                    \<lparr>timestamp := Some (blockTimestamp (blocks ! i))\<rparr>) = Inr (result ! i))"
    by (simp add: getRollupBlocksFrom_def Let_def await_def promiseAll_Inr_iff
          mapThrowing_enumerate_Inr_iff
        split: sum.splits)
next
  assume "\<exists>fetched blocks.
            map (getTransaction ch) rollupEvents = map Inr fetched \<and>
            map (\<lambda>tx. getBlock ch (blockNumber tx))
              (filter (\<lambda>tx. minConfirmations \<le> confirmations tx) fetched) = map Inr blocks \<and>
            length result = length (filter (\<lambda>tx. minConfirmations \<le> confirmations tx) fetched) \<and>
            (\<forall>i<length (filter (\<lambda>tx. minConfirmations \<le> confirmations tx) fetched).
               decodeBlock ch
                 ((filter (\<lambda>tx. minConfirmations \<le> confirmations tx) fetched ! i)
                    \<lparr>timestamp := Some (blockTimestamp (blocks ! i))\<rparr>) = Inr (result ! i))"
  then obtain fetched blocks
    where f: "map (getTransaction ch) rollupEvents = map Inr fetched"
      and b: "map (\<lambda>tx. getBlock ch (blockNumber tx))
              (filter (\<lambda>tx. minConfirmations \<le> confirmations tx) fetched) = map Inr blocks"
      and l: "length result = length (filter (\<lambda>tx. minConfirmations \<le> confirmations tx) fetched)"
      and d: "\<forall>i<length (filter (\<lambda>tx. minConfirmations \<le> confirmations tx) fetched).
               decodeBlock ch
                 ((filter (\<lambda>tx. minConfirmations \<le> confirmations tx) fetched ! i)
                    \<lparr>timestamp := Some (blockTimestamp (blocks ! i))\<rparr>) = Inr (result ! i)"
    by blast
  from l d have "mapThrowing
           (\<lambda>(i, tx). decodeBlock ch (tx\<lparr>timestamp := Some (blockTimestamp (blocks ! i))\<rparr>))
           (enumerate 0 (filter (\<lambda>tx. minConfirmations \<le> confirmations tx) fetched)) = Inr result"
    by (simp add: mapThrowing_enumerate_Inr_iff)
  then show "getRollupBlocksFrom ch txFinishedAt blockFinishedAt this rid minConfirmations = Inr result"
    by (simp add: getRollupBlocksFrom_def Let_def await_def q1 q2 f b promiseAll_map_Inr)
qed

lemma reachable_rollupProcessor:
  "reachable this \<Longrightarrow>
   rollupProcessor this = Contract (toString (rollupContractAddress this)) RollupABI Provider"
proof (induction rule: reachable.induct)
  case (reachable_constructor a)
  show ?case by (simp add: constructor_def)
next
  case (reachable_init this ch finishedAt)
  then show ?case
    by (simp add: init_def split: sum.splits)
next
  case (reachable_setSupportedAsset this ch a supportsPermit signingAddress)
  then show ?case
    by (simp add: setSupportedAsset_def Let_def split: sum.splits)
qed

lemma decodeBlock_fields:
  assumes "decodeBlock ch tx = Inr b"
  shows "created b = (case timestamp tx of None \<Rightarrow> None | Some t \<Rightarrow> newDate (t * 1000))"
    and "txHash b = fromHex (drop 2 (hash tx))"
    and "proofRollupId ch tx = Some (rollupId b)"
  using assms
  by (auto simp add: decodeBlock_def proofRollupId_def Let_def split: option.splits)

lemma proofRollupId_timestamp [simp]:
  "proofRollupId ch (tx\<lparr>timestamp := t\<rparr>) = proofRollupId ch tx"
  by (simp add: proofRollupId_def)

lemma map_Inr_exists:
  "\<forall>x\<in>set xs. \<exists>y. f x = Inr y \<Longrightarrow> \<exists>ys. map f xs = map Inr ys"
proof (induction xs)
  case Nil
  show ?case by simp
next
  case (Cons x xs)
  then obtain y ys where "f x = Inr y" "map f xs = map Inr ys" by auto
  then have "map f (x # xs) = map Inr (y # ys)" by simp
  then show ?case by blast
qed

section \<open>The example chain, evaluated\<close>

lemma example_q1:
  "queryFilter exampleChain (rollupProcessor (constructor (EthAddress ''0xe0'')))
     (RollupProcessed (Some 3)) None = Inr (hd exampleEvents # [])"
  by (simp add: exampleChain_def exampleEvents_def)

lemma example_q2:
  "queryFilter exampleChain (rollupProcessor (constructor (EthAddress ''0xe0'')))
     (RollupProcessed None) (Some (eventBlockNumber (hd exampleEvents))) = Inr exampleEvents"
  by (simp add: exampleChain_def exampleEvents_def)

lemma example_fetched:
  "map (getTransaction exampleChain) exampleEvents = map Inr (map exampleTransaction exampleEvents)"
  by (simp add: exampleChain_def)

lemma example_result:
  "getRollupBlocksFrom exampleChain (\<lambda>i. 3 - i) (\<lambda>i. i) (constructor (EthAddress ''0xe0'')) 3 5 =
   Inr [\<lparr> created = Some 1600000150000, txHash = [3, 170], rollupProofData = [3, 170],
           viewingKeysData = [], rollupId = 3, rollupSize = 1 \<rparr>,
        \<lparr> created = Some 1600000225000, txHash = [4, 187], rollupProofData = [4, 187],
           viewingKeysData = [], rollupId = 4, rollupSize = 1 \<rparr>]"
  by (simp add: getRollupBlocksFrom_def example_q1 example_q2 example_fetched await_def
        promiseAll_map_Inr)
     (simp add: exampleEvents_def exampleTransaction_def exampleChain_def promiseAll_def
        completionOrder_def enumerate_eq_zip decodeBlock_def hexValue_def Let_def await_def
        newDate_def)

lemma example_init:
  "snd (init exampleChain (\<lambda>i. 2 - i) (constructor (EthAddress ''0xe0''))) =
   \<lparr> rollupContractAddress = EthAddress ''0xe0'',
     rollupProcessor = Contract ''0xe0'' RollupABI Provider,
     erc20Contracts =
       [Contract ''0xa1'' ERC20ABI Provider, Contract ''0xa2'' ERC20PermitABI Provider] \<rparr>"
  by (simp add: init_def exampleChain_def constructor_def await_def promiseAll_def
        completionOrder_def enumerate_eq_zip)

section \<open>Properties of the methods\<close>

text \<open>
  Claim C3. Every call of \<open>depositPendingFunds\<close> makes exactly one request, through a
  handle whose signer is taken from the depositor's address. The request is the call of
  \<open>depositPendingFundsPermit\<close>, carrying \<open>approvalAmount\<close>, \<open>deadline\<close> and the
  components \<open>v\<close>, \<open>r\<close> and \<open>s\<close> of the signature, if and only if \<open>permitArgs\<close> is
  present, and the call of \<open>depositPendingFunds\<close> otherwise; it is never both.
\<close>

theorem depositPendingFunds_call_shape:
  "\<exists>call. snd (depositPendingFunds ch this assetId amount depositorAddress permitArgs) =
       [(Contract (toString (rollupContractAddress this)) RollupABI
           (Signer (getSigner_address (toString depositorAddress))), call)]
     \<and> (isPermitDeposit call \<longleftrightarrow> permitArgs \<noteq> None)
     \<and> (isPlainDeposit call \<longleftrightarrow> permitArgs = None)
     \<and> \<not> (isPermitDeposit call \<and> isPlainDeposit call)
     \<and> (\<forall>p. permitArgs = Some p \<longrightarrow>
           call = Call_depositPendingFundsPermit assetId amount (toString depositorAddress)
                    (address (rollupProcessor this)) (approvalAmount p) (deadline p)
                    (sig_v (signature p)) (sig_r (signature p)) (sig_s (signature p)))
     \<and> (permitArgs = None \<longrightarrow>
           call = Call_depositPendingFunds assetId amount (toString depositorAddress))"
  by (cases permitArgs) (simp_all add: depositPendingFunds_def Let_def)

theorem depositPendingFunds_call_shape_witness:
  "snd (depositPendingFunds exampleChain (constructor (EthAddress ''0xe0'')) 1 500
          (EthAddress ''0xd1'') (Some examplePermit)) =
     [(Contract ''0xe0'' RollupABI (Signer (getSigner_address ''0xd1'')),
       Call_depositPendingFundsPermit 1 500 ''0xd1'' ''0xe0'' 500 1700000000
         [27] (replicate 32 1) (replicate 32 2))]
   \<and> snd (depositPendingFunds exampleChain (constructor (EthAddress ''0xe0'')) 1 500
          (EthAddress ''0xd1'') None) =
     [(Contract ''0xe0'' RollupABI (Signer (getSigner_address ''0xd1'')),
       Call_depositPendingFunds 1 500 ''0xd1'')]"
  using depositPendingFunds_call_shape [of exampleChain "constructor (EthAddress ''0xe0'')" 1 500
          "EthAddress ''0xd1''" "Some examplePermit"]
        depositPendingFunds_call_shape [of exampleChain "constructor (EthAddress ''0xe0'')" 1 500
          "EthAddress ''0xd1''" None]
  by (auto simp add: constructor_def examplePermit_def)

text \<open>
  Claim C4. When the query for the events that match \<open>rollupId\<close> finds none,
  \<open>getRollupBlocksFrom\<close> returns the empty sequence, and no error, whatever the
  order in which lookups would settle.
\<close>

theorem getRollupBlocksFrom_unknown_rollup:
  assumes "queryFilter ch (rollupProcessor this) (RollupProcessed (Some rid)) None = Inr []"
  shows "getRollupBlocksFrom ch txFinishedAt blockFinishedAt this rid minConfirmations = Inr []"
  using assms by (simp add: getRollupBlocksFrom_def await_def)

theorem getRollupBlocksFrom_unknown_rollup_witness:
  "queryFilter exampleChain (rollupProcessor (constructor (EthAddress ''0xe0'')))
     (RollupProcessed (Some 7)) None = Inr []
   \<and> getRollupBlocksFrom exampleChain (\<lambda>i. i) (\<lambda>i. i) (constructor (EthAddress ''0xe0'')) 7 0
       = Inr []"
proof -
  have h: "queryFilter exampleChain (rollupProcessor (constructor (EthAddress ''0xe0'')))
     (RollupProcessed (Some 7)) None = Inr []"
    by (simp add: exampleChain_def exampleEvents_def)
  show ?thesis
    using h getRollupBlocksFrom_unknown_rollup [OF h, of "\<lambda>i. i" "\<lambda>i. i" 0]
    by simp
qed

text \<open>
  Claim C7. The one request of \<open>sendRollupProof\<close>, and the one of
  \<open>setSupportedAsset\<close>, is signed by the signer of \<open>signingAddress\<close> when that
  argument is given, and by the signer of index 0 otherwise.
\<close>

theorem signer_selection:
  "map (signerOrProvider \<circ> fst)
     (snd (sendRollupProof ch this proofData signatures sigIndexes viewingKeys signingAddress gasLimit)) =
     [Signer (case signingAddress of
                Some a \<Rightarrow> getSigner_address (toString a)
              | None \<Rightarrow> getSigner_index 0)]
   \<and> map (signerOrProvider \<circ> fst)
     (snd (snd (setSupportedAsset ch this assetAddress supportsPermit signingAddress))) =
     [Signer (case signingAddress of
                Some a \<Rightarrow> getSigner_address (toString a)
              | None \<Rightarrow> getSigner_index 0)]"
  by (simp add: sendRollupProof_def setSupportedAsset_def Let_def split: sum.splits)

theorem signer_selection_witness:
  "map (signerOrProvider \<circ> fst)
     (snd (sendRollupProof exampleChain (constructor (EthAddress ''0xe0'')) [1, 2] [] [] []
        (Some (EthAddress ''0x51'')) None)) = [Signer (getSigner_address ''0x51'')]
   \<and> map (signerOrProvider \<circ> fst)
     (snd (sendRollupProof exampleChain (constructor (EthAddress ''0xe0'')) [1, 2] [] [] []
        None None)) = [Signer (getSigner_index 0)]
   \<and> map (signerOrProvider \<circ> fst)
     (snd (snd (setSupportedAsset exampleChain (constructor (EthAddress ''0xe0''))
        (EthAddress ''0xa3'') True (Some (EthAddress ''0x51''))))) = [Signer (getSigner_address ''0x51'')]
   \<and> map (signerOrProvider \<circ> fst)
     (snd (snd (setSupportedAsset exampleChain (constructor (EthAddress ''0xe0''))
        (EthAddress ''0xa3'') True None))) = [Signer (getSigner_index 0)]"
  using signer_selection [of exampleChain "constructor (EthAddress ''0xe0'')" "[1, 2]" "[]" "[]" "[]"
          "Some (EthAddress ''0x51'')" None "EthAddress ''0xa3''" True]
        signer_selection [of exampleChain "constructor (EthAddress ''0xe0'')" "[1, 2]" "[]" "[]" "[]"
          None None "EthAddress ''0xa3''" True]
  by simp

text \<open>
  Claim C9. A call of \<open>setSupportedAsset\<close> that succeeds leaves the cached handles as
  they were, in their positions, with one handle added at the end: a handle for the
  asset's address, of the permit-aware interface if and only if \<open>supportsPermit\<close>
  holds. The call succeeds as soon as the submission has given a transaction response,
  whatever its confirmations; the submission is the only request made.
\<close>

theorem setSupportedAsset_appends:
  assumes "fst (setSupportedAsset ch this assetAddress supportsPermit signingAddress) = Inr h"
  shows "(\<exists>tx request.
           setSupportedAsset ch this assetAddress supportsPermit signingAddress =
             (Inr (fromHex (drop 2 (hash tx))),
              this\<lparr>erc20Contracts :=
                     erc20Contracts this @
                     [Contract (toString assetAddress)
                        (if supportsPermit then ERC20PermitABI else ERC20ABI) Provider]\<rparr>,
              [request])
         \<and> sendTransaction ch (fst request) (snd request) = Inr tx
         \<and> snd request = Call_setSupportedAsset (toString assetAddress) supportsPermit)
       \<and> length (erc20Contracts
            (fst (snd (setSupportedAsset ch this assetAddress supportsPermit signingAddress)))) =
          Suc (length (erc20Contracts this))
       \<and> (\<forall>i<length (erc20Contracts this).
            erc20Contracts
              (fst (snd (setSupportedAsset ch this assetAddress supportsPermit signingAddress))) ! i =
            erc20Contracts this ! i)
       \<and> address (last (erc20Contracts
            (fst (snd (setSupportedAsset ch this assetAddress supportsPermit signingAddress))))) =
          toString assetAddress
       \<and> (interface (last (erc20Contracts
            (fst (snd (setSupportedAsset ch this assetAddress supportsPermit signingAddress))))) =
          ERC20PermitABI \<longleftrightarrow> supportsPermit)"
proof -
  let ?handle = "Contract (toString (rollupContractAddress this)) RollupABI
       (Signer (case signingAddress of
                  Some a \<Rightarrow> getSigner_address (toString a)
                | None \<Rightarrow> getSigner_index 0))"
  let ?call = "Call_setSupportedAsset (toString assetAddress) supportsPermit"
  show ?thesis
  proof (cases "sendTransaction ch ?handle ?call")
    case (Inl e)
    with assms show ?thesis
      by (simp add: setSupportedAsset_def Let_def await_def)
  next
    case (Inr tx)
    then have eq: "setSupportedAsset ch this assetAddress supportsPermit signingAddress =
             (Inr (fromHex (drop 2 (hash tx))),
              this\<lparr>erc20Contracts :=
                     erc20Contracts this @
                     [Contract (toString assetAddress)
                        (if supportsPermit then ERC20PermitABI else ERC20ABI) Provider]\<rparr>,
              [(?handle, ?call)])"
      by (simp add: setSupportedAsset_def Let_def await_def)
    have first: "\<exists>tx request.
           setSupportedAsset ch this assetAddress supportsPermit signingAddress =
             (Inr (fromHex (drop 2 (hash tx))),
              this\<lparr>erc20Contracts :=
                     erc20Contracts this @
                     [Contract (toString assetAddress)
                        (if supportsPermit then ERC20PermitABI else ERC20ABI) Provider]\<rparr>,
              [request])
         \<and> sendTransaction ch (fst request) (snd request) = Inr tx
         \<and> snd request = Call_setSupportedAsset (toString assetAddress) supportsPermit"
      using eq Inr
      by (intro exI [of _ tx] exI [of _ "(?handle, ?call)"]) simp
    have rest: "erc20Contracts
            (fst (snd (setSupportedAsset ch this assetAddress supportsPermit signingAddress))) =
          erc20Contracts this @
            [Contract (toString assetAddress)
               (if supportsPermit then ERC20PermitABI else ERC20ABI) Provider]"
      by (simp add: eq)
    show ?thesis
      using first by (simp add: rest nth_append)
  qed
qed

theorem setSupportedAsset_appends_witness:
  "fst (setSupportedAsset exampleChain
          (snd (init exampleChain (\<lambda>i. 2 - i) (constructor (EthAddress ''0xe0''))))
          (EthAddress ''0xa3'') True None) = Inr [0, 255]
   \<and> erc20Contracts (fst (snd (setSupportedAsset exampleChain
          (snd (init exampleChain (\<lambda>i. 2 - i) (constructor (EthAddress ''0xe0''))))
          (EthAddress ''0xa3'') True None))) =
       [Contract ''0xa1'' ERC20ABI Provider, Contract ''0xa2'' ERC20PermitABI Provider,
        Contract ''0xa3'' ERC20PermitABI Provider]"
proof -
  let ?c = "snd (init exampleChain (\<lambda>i. 2 - i) (constructor (EthAddress ''0xe0'')))"
  have c: "?c = \<lparr> rollupContractAddress = EthAddress ''0xe0'',
       rollupProcessor = Contract ''0xe0'' RollupABI Provider,
       erc20Contracts = [Contract ''0xa1'' ERC20ABI Provider, Contract ''0xa2'' ERC20PermitABI Provider] \<rparr>"
    by (simp add: init_def exampleChain_def constructor_def await_def promiseAll_def
          completionOrder_def enumerate_eq_zip)
  have h: "fst (setSupportedAsset exampleChain ?c (EthAddress ''0xa3'') True None) = Inr [0, 255]"
    unfolding c
    by (simp add: setSupportedAsset_def exampleChain_def await_def Let_def hexValue_def)
  show ?thesis
    using h setSupportedAsset_appends [OF h]
    unfolding c by auto
qed

text \<open>
  Claim C10. In every reachable state, the permit call of \<open>depositPendingFunds\<close>
  names as spender the address of the rollup processor handle, which is the address of
  the rollup contract and the address the call is sent to, whatever the arguments.
\<close>

theorem depositPendingFunds_permit_spender:
  assumes "reachable this"
  shows "map (\<lambda>(handle, call). (address handle, permitSpender call))
           (snd (depositPendingFunds ch this assetId amount depositorAddress (Some p))) =
         [(address (rollupProcessor this), Some (address (rollupProcessor this)))]
       \<and> address (rollupProcessor this) = toString (rollupContractAddress this)"
  using reachable_rollupProcessor [OF assms]
  by (simp add: depositPendingFunds_def Let_def)

theorem depositPendingFunds_permit_spender_witness:
  "reachable (fst (snd (setSupportedAsset exampleChain (constructor (EthAddress ''0xe0''))
       (EthAddress ''0xa3'') True None)))
   \<and> map (\<lambda>(handle, call). (address handle, permitSpender call))
       (snd (depositPendingFunds exampleChain
          (fst (snd (setSupportedAsset exampleChain (constructor (EthAddress ''0xe0''))
             (EthAddress ''0xa3'') True None)))
          2 500 (EthAddress ''0xd1'') (Some examplePermit))) =
       [(''0xe0'', Some ''0xe0'')]"
proof -
  let ?c = "fst (snd (setSupportedAsset exampleChain (constructor (EthAddress ''0xe0''))
       (EthAddress ''0xa3'') True None))"
  have r: "reachable ?c"
    by (intro reachable_setSupportedAsset reachable_constructor)
  have a: "address (rollupProcessor ?c) = ''0xe0''"
    by (simp add: setSupportedAsset_def exampleChain_def constructor_def await_def Let_def)
  show ?thesis
    using r depositPendingFunds_permit_spender [OF r, of exampleChain 2 500 "EthAddress ''0xd1''" examplePermit]
    by (simp add: a)
qed

text \<open>
  Claim C5. After the transactions of the events have been fetched, the blocks returned
  stand one for one, and in order, for exactly the fetched transactions whose
  confirmations are at least \<open>minConfirmations\<close>: each block is decoded from its
  transaction. And a block is returned for each of them: the method returns whenever the
  block lookup and the decoding succeed for every retained transaction.
\<close>

theorem getRollupBlocksFrom_confirmations:
  assumes q1: "queryFilter ch (rollupProcessor this) (RollupProcessed (Some rid)) None =
                 Inr (rollupEvent # others)"
      and q2: "queryFilter ch (rollupProcessor this) (RollupProcessed None)
                 (Some (eventBlockNumber rollupEvent)) = Inr rollupEvents"
      and fetched: "map (getTransaction ch) rollupEvents = map Inr fetched"
  shows "(\<forall>result.
            getRollupBlocksFrom ch txFinishedAt blockFinishedAt this rid minConfirmations = Inr result
            \<longrightarrow> list_all2
                  (\<lambda>tx b. txHash b = fromHex (drop 2 (hash tx)) \<and>
                          (\<exists>t. decodeBlock ch (tx\<lparr>timestamp := Some t\<rparr>) = Inr b))
                  (filter (\<lambda>tx. minConfirmations \<le> confirmations tx) fetched) result)
       \<and> ((\<forall>tx\<in>set (filter (\<lambda>tx. minConfirmations \<le> confirmations tx) fetched).
              (\<exists>b. getBlock ch (blockNumber tx) = Inr b) \<and>
              (\<forall>t. \<exists>b. decodeBlock ch (tx\<lparr>timestamp := Some t\<rparr>) = Inr b))
            \<longrightarrow> (\<exists>result.
                  getRollupBlocksFrom ch txFinishedAt blockFinishedAt this rid minConfirmations =
                    Inr result))"
proof (intro conjI allI impI)
  let ?txs = "filter (\<lambda>tx. minConfirmations \<le> confirmations tx) fetched"
  fix result
  assume "getRollupBlocksFrom ch txFinishedAt blockFinishedAt this rid minConfirmations = Inr result"
  then obtain fetched' blocks
    where f': "map (getTransaction ch) rollupEvents = map Inr fetched'"
      and "map (\<lambda>tx. getBlock ch (blockNumber tx))
              (filter (\<lambda>tx. minConfirmations \<le> confirmations tx) fetched') = map Inr blocks"
      and len: "length result = length (filter (\<lambda>tx. minConfirmations \<le> confirmations tx) fetched')"
      and dec: "\<forall>i<length (filter (\<lambda>tx. minConfirmations \<le> confirmations tx) fetched').
               decodeBlock ch
                 ((filter (\<lambda>tx. minConfirmations \<le> confirmations tx) fetched' ! i)
                    \<lparr>timestamp := Some (blockTimestamp (blocks ! i))\<rparr>) = Inr (result ! i)"
    unfolding getRollupBlocksFrom_Inr_iff [OF q1 q2] by blast
  from f' fetched have "map Inr fetched' = (map Inr fetched :: (call_error + TransactionResponse) list)"
    by simp
  then have same: "fetched' = fetched"
    using inj_map_eq_map [of "Inr :: TransactionResponse \<Rightarrow> call_error + TransactionResponse"]
    by simp
  show "list_all2
          (\<lambda>tx b. txHash b = fromHex (drop 2 (hash tx)) \<and>
                  (\<exists>t. decodeBlock ch (tx\<lparr>timestamp := Some t\<rparr>) = Inr b))
          ?txs result"
  proof (rule list_all2_all_nthI)
    show "length ?txs = length result" using len same by simp
  next
    fix i assume i: "i < length ?txs"
    with dec same
    have d: "decodeBlock ch ((?txs ! i)\<lparr>timestamp := Some (blockTimestamp (blocks ! i))\<rparr>) =
             Inr (result ! i)"
      by simp
    from decodeBlock_fields(2) [OF d] d
    show "txHash (result ! i) = fromHex (drop 2 (hash (?txs ! i))) \<and>
          (\<exists>t. decodeBlock ch ((?txs ! i)\<lparr>timestamp := Some t\<rparr>) = Inr (result ! i))"
      by auto
  qed
next
  let ?txs = "filter (\<lambda>tx. minConfirmations \<le> confirmations tx) fetched"
  assume ok: "\<forall>tx\<in>set ?txs.
              (\<exists>b. getBlock ch (blockNumber tx) = Inr b) \<and>
              (\<forall>t. \<exists>b. decodeBlock ch (tx\<lparr>timestamp := Some t\<rparr>) = Inr b)"
  then have "\<forall>tx\<in>set ?txs. \<exists>b. getBlock ch (blockNumber tx) = Inr b"
    by blast
  from map_Inr_exists [OF this] obtain blocks
    where b: "map (\<lambda>tx. getBlock ch (blockNumber tx)) ?txs = map Inr blocks"
    by blast
  let ?dec = "\<lambda>i. decodeBlock ch ((?txs ! i)\<lparr>timestamp := Some (blockTimestamp (blocks ! i))\<rparr>)"
  have "\<forall>i\<in>set [0..<length ?txs]. \<exists>b. ?dec i = Inr b"
  proof (intro ballI)
    fix i assume "i \<in> set [0..<length ?txs]"
    then have "i < length ?txs" by simp
    then have "?txs ! i \<in> set ?txs" by (rule nth_mem)
    with ok show "\<exists>b. ?dec i = Inr b" by blast
  qed
  from map_Inr_exists [OF this] obtain result
    where r: "map ?dec [0..<length ?txs] = map Inr result"
    by blast
  have rl: "length result = length ?txs"
    using arg_cong [OF r, where f = length] by simp
  have rd: "\<forall>i<length ?txs. ?dec i = Inr (result ! i)"
  proof (intro allI impI)
    fix i assume i: "i < length ?txs"
    then have "?dec i = map ?dec [0..<length ?txs] ! i" by simp
    also have "\<dots> = map Inr result ! i" by (simp only: r)
    also have "\<dots> = Inr (result ! i)" using i rl by simp
    finally show "?dec i = Inr (result ! i)" .
  qed
  have "getRollupBlocksFrom ch txFinishedAt blockFinishedAt this rid minConfirmations = Inr result"
    unfolding getRollupBlocksFrom_Inr_iff [OF q1 q2]
    using fetched b rl rd
    by (intro exI [of _ fetched] exI [of _ blocks] conjI)
  then show "\<exists>result.
     getRollupBlocksFrom ch txFinishedAt blockFinishedAt this rid minConfirmations = Inr result"
    by blast
qed

theorem getRollupBlocksFrom_confirmations_witness:
  "map confirmations (map exampleTransaction exampleEvents) = [10, 5, 1]
   \<and> map confirmations (filter (\<lambda>tx. 5 \<le> confirmations tx) (map exampleTransaction exampleEvents))
       = [10, 5]
   \<and> (\<exists>result.
        getRollupBlocksFrom exampleChain (\<lambda>i. 3 - i) (\<lambda>i. i) (constructor (EthAddress ''0xe0'')) 3 5
          = Inr result
        \<and> map txHash result = [[3, 170], [4, 187]]
        \<and> list_all2
             (\<lambda>tx b. txHash b = fromHex (drop 2 (hash tx)) \<and>
                     (\<exists>t. decodeBlock exampleChain (tx\<lparr>timestamp := Some t\<rparr>) = Inr b))
             (filter (\<lambda>tx. 5 \<le> confirmations tx) (map exampleTransaction exampleEvents)) result)"
proof -
  have c: "map confirmations (map exampleTransaction exampleEvents) = [10, 5, 1]"
    by (simp add: exampleEvents_def exampleTransaction_def)
  have f: "map confirmations (filter (\<lambda>tx. 5 \<le> confirmations tx) (map exampleTransaction exampleEvents))
       = [10, 5]"
    by (simp add: exampleEvents_def exampleTransaction_def)
  show ?thesis
    using c f example_result
      getRollupBlocksFrom_confirmations [OF example_q1 example_q2 example_fetched,
        of "\<lambda>i. 3 - i" "\<lambda>i. i" 5]
    by simp
qed

text \<open>
  Claim C6. The blocks returned are those of the retained transactions in the order of
  the events that the chain returned: block \<open>i\<close> is decoded from retained transaction
  \<open>i\<close> and carries the time stamp of the block that contains this transaction: its
  \<open>created\<close> is the \<open>Date\<close> made from that time stamp in milliseconds. Where
  the events are in ascending order of rollup id, and each transaction carries the proof
  of the rollup its event names, the rollup ids of the blocks ascend. The result is the
  same for every order in which the concurrent lookups settle.
\<close>

theorem getRollupBlocksFrom_order:
  assumes q1: "queryFilter ch (rollupProcessor this) (RollupProcessed (Some rid)) None =
                 Inr (rollupEvent # others)"
      and q2: "queryFilter ch (rollupProcessor this) (RollupProcessed None)
                 (Some (eventBlockNumber rollupEvent)) = Inr rollupEvents"
      and res: "getRollupBlocksFrom ch txFinishedAt blockFinishedAt this rid minConfirmations =
                 Inr result"
  shows "(\<exists>fetched blocks.
            map (getTransaction ch) rollupEvents = map Inr fetched \<and>
            map (\<lambda>tx. getBlock ch (blockNumber tx))
              (filter (\<lambda>tx. minConfirmations \<le> confirmations tx) fetched) = map Inr blocks \<and>
            length result = length (filter (\<lambda>tx. minConfirmations \<le> confirmations tx) fetched) \<and>
            (\<forall>i<length result.
               decodeBlock ch
                 ((filter (\<lambda>tx. minConfirmations \<le> confirmations tx) fetched ! i)
                    \<lparr>timestamp := Some (blockTimestamp (blocks ! i))\<rparr>) = Inr (result ! i) \<and>
               getBlock ch
                 (blockNumber (filter (\<lambda>tx. minConfirmations \<le> confirmations tx) fetched ! i)) =
                 Inr (blocks ! i) \<and>
               created (result ! i) = newDate (blockTimestamp (blocks ! i) * 1000) \<and>
               txHash (result ! i) =
                 fromHex (drop 2
                   (hash (filter (\<lambda>tx. minConfirmations \<le> confirmations tx) fetched ! i)))) \<and>
            (sorted (map eventRollupId rollupEvents) \<and>
             map (proofRollupId ch) fetched = map (\<lambda>e. Some (eventRollupId e)) rollupEvents
             \<longrightarrow> sorted (map rollupId result)))
       \<and> (\<forall>txFinishedAt' blockFinishedAt'.
            getRollupBlocksFrom ch txFinishedAt' blockFinishedAt' this rid minConfirmations =
              Inr result)"
proof
  from res obtain fetched blocks
    where f: "map (getTransaction ch) rollupEvents = map Inr fetched"
      and b: "map (\<lambda>tx. getBlock ch (blockNumber tx))
              (filter (\<lambda>tx. minConfirmations \<le> confirmations tx) fetched) = map Inr blocks"
      and len: "length result = length (filter (\<lambda>tx. minConfirmations \<le> confirmations tx) fetched)"
      and dec: "\<forall>i<length (filter (\<lambda>tx. minConfirmations \<le> confirmations tx) fetched).
               decodeBlock ch
                 ((filter (\<lambda>tx. minConfirmations \<le> confirmations tx) fetched ! i)
                    \<lparr>timestamp := Some (blockTimestamp (blocks ! i))\<rparr>) = Inr (result ! i)"
    unfolding getRollupBlocksFrom_Inr_iff [OF q1 q2] by blast
  let ?txs = "filter (\<lambda>tx. minConfirmations \<le> confirmations tx) fetched"
  have blen: "length blocks = length ?txs"
    using arg_cong [OF b, where f = length] by simp
  have each: "decodeBlock ch ((?txs ! i)\<lparr>timestamp := Some (blockTimestamp (blocks ! i))\<rparr>) =
                Inr (result ! i) \<and>
              getBlock ch (blockNumber (?txs ! i)) = Inr (blocks ! i) \<and>
              created (result ! i) = newDate (blockTimestamp (blocks ! i) * 1000) \<and>
              txHash (result ! i) = fromHex (drop 2 (hash (?txs ! i)))"
    if i: "i < length result" for i
  proof -
    from i len dec
    have d: "decodeBlock ch ((?txs ! i)\<lparr>timestamp := Some (blockTimestamp (blocks ! i))\<rparr>) =
             Inr (result ! i)"
      by simp
    have "getBlock ch (blockNumber (?txs ! i)) = map (\<lambda>tx. getBlock ch (blockNumber tx)) ?txs ! i"
      using i len by simp
    also have "\<dots> = map Inr blocks ! i" by (simp only: b)
    also have "\<dots> = Inr (blocks ! i)" using i len blen by simp
    finally have g: "getBlock ch (blockNumber (?txs ! i)) = Inr (blocks ! i)" .
    from decodeBlock_fields(1, 2) [OF d] d g show ?thesis by simp
  qed
  have asc: "sorted (map rollupId result)"
    if s: "sorted (map eventRollupId rollupEvents)"
      and ids: "map (proofRollupId ch) fetched = map (\<lambda>e. Some (eventRollupId e)) rollupEvents"
  proof -
    have "map (\<lambda>tx. the (proofRollupId ch tx)) fetched = map the (map (proofRollupId ch) fetched)"
      by simp
    also have "\<dots> = map eventRollupId rollupEvents"
      by (simp only: ids) simp
    finally have "sorted (map (\<lambda>tx. the (proofRollupId ch tx)) fetched)"
      using s by simp
    then have st: "sorted (map (\<lambda>tx. the (proofRollupId ch tx)) ?txs)"
      by (rule sorted_filter)
    have "map rollupId result = map (\<lambda>tx. the (proofRollupId ch tx)) ?txs"
    proof (rule nth_equalityI)
      show "length (map rollupId result) = length (map (\<lambda>tx. the (proofRollupId ch tx)) ?txs)"
        using len by simp
    next
      fix i assume "i < length (map rollupId result)"
      then have i: "i < length result" by simp
      from each [OF i]
      have "decodeBlock ch ((?txs ! i)\<lparr>timestamp := Some (blockTimestamp (blocks ! i))\<rparr>) =
              Inr (result ! i)"
        by simp
      from decodeBlock_fields(3) [OF this]
      have "proofRollupId ch (?txs ! i) = Some (rollupId (result ! i))"
        by simp
      then show "map rollupId result ! i = map (\<lambda>tx. the (proofRollupId ch tx)) ?txs ! i"
        using i len by simp
    qed
    with st show ?thesis by simp
  qed
  show "\<exists>fetched blocks.
            map (getTransaction ch) rollupEvents = map Inr fetched \<and>
            map (\<lambda>tx. getBlock ch (blockNumber tx))
              (filter (\<lambda>tx. minConfirmations \<le> confirmations tx) fetched) = map Inr blocks \<and>
            length result = length (filter (\<lambda>tx. minConfirmations \<le> confirmations tx) fetched) \<and>
            (\<forall>i<length result.
               decodeBlock ch
                 ((filter (\<lambda>tx. minConfirmations \<le> confirmations tx) fetched ! i)
                    \<lparr>timestamp := Some (blockTimestamp (blocks ! i))\<rparr>) = Inr (result ! i) \<and>
               getBlock ch
                 (blockNumber (filter (\<lambda>tx. minConfirmations \<le> confirmations tx) fetched ! i)) =
                 Inr (blocks ! i) \<and>
               created (result ! i) = newDate (blockTimestamp (blocks ! i) * 1000) \<and>
               txHash (result ! i) =
                 fromHex (drop 2
                   (hash (filter (\<lambda>tx. minConfirmations \<le> confirmations tx) fetched ! i)))) \<and>
            (sorted (map eventRollupId rollupEvents) \<and>
             map (proofRollupId ch) fetched = map (\<lambda>e. Some (eventRollupId e)) rollupEvents
             \<longrightarrow> sorted (map rollupId result))"
    using f b len each asc
    by (intro exI [of _ fetched] exI [of _ blocks] conjI allI impI) blast+
next
  show "\<forall>txFinishedAt' blockFinishedAt'.
            getRollupBlocksFrom ch txFinishedAt' blockFinishedAt' this rid minConfirmations =
              Inr result"
    using res unfolding getRollupBlocksFrom_Inr_iff [OF q1 q2] by blast
qed

theorem getRollupBlocksFrom_order_witness:
  "getRollupBlocksFrom exampleChain (\<lambda>i. 3 - i) (\<lambda>i. i) (constructor (EthAddress ''0xe0'')) 3 5 =
     Inr [\<lparr> created = Some 1600000150000, txHash = [3, 170], rollupProofData = [3, 170],
             viewingKeysData = [], rollupId = 3, rollupSize = 1 \<rparr>,
          \<lparr> created = Some 1600000225000, txHash = [4, 187], rollupProofData = [4, 187],
             viewingKeysData = [], rollupId = 4, rollupSize = 1 \<rparr>]
   \<and> getRollupBlocksFrom exampleChain (\<lambda>i. i) (\<lambda>i. 7 - i) (constructor (EthAddress ''0xe0'')) 3 5 =
     Inr [\<lparr> created = Some 1600000150000, txHash = [3, 170], rollupProofData = [3, 170],
             viewingKeysData = [], rollupId = 3, rollupSize = 1 \<rparr>,
          \<lparr> created = Some 1600000225000, txHash = [4, 187], rollupProofData = [4, 187],
             viewingKeysData = [], rollupId = 4, rollupSize = 1 \<rparr>]
   \<and> map blockNumber (map exampleTransaction exampleEvents) = [Some 10, Some 15, Some 19]
   \<and> getBlock exampleChain (Some 10) = Inr \<lparr> number = 10, blockTimestamp = 1600000150 \<rparr>
   \<and> getBlock exampleChain (Some 15) = Inr \<lparr> number = 15, blockTimestamp = 1600000225 \<rparr>"
  using example_result
    getRollupBlocksFrom_order [OF example_q1 example_q2 example_result]
  by (simp add: exampleEvents_def exampleTransaction_def exampleChain_def)

text \<open>
  Claim C8. For an \<open>assetId\<close> inside the cache, \<open>getAssetBalance\<close> and
  \<open>getAssetAllowance\<close> are the read on the handle cached at that index: each returns
  what that read resolves with, and never fails with a \<open>TypeError\<close>. So is
  \<open>getUserNonce\<close> when that handle was made from the permit-aware interface; on a
  cached handle made from the plain interface it fails with a \<open>TypeError\<close> and makes no
  read. For an \<open>assetId\<close> outside the cache each of the three fails with a
  \<open>TypeError\<close>, whatever the chain would answer; so does every read on a freshly
  constructed object, whose cache \<open>init\<close> has not yet filled.
\<close>

theorem asset_reads_by_index:
  "(0 \<le> assetId \<and> assetId < int (length (erc20Contracts this)) \<longrightarrow>
      getAssetBalance ch this assetId holder =
        await (read_balanceOf ch (erc20Contracts this ! nat assetId) (toString holder)) \<and>
      getAssetAllowance ch this assetId holder =
        await (read_allowance ch (erc20Contracts this ! nat assetId) (toString holder)
                 (toString (rollupContractAddress this))) \<and>
      getUserNonce ch this assetId holder =
        (if interface (erc20Contracts this ! nat assetId) = ERC20PermitABI
         then await (read_nonces ch (erc20Contracts this ! nat assetId) (toString holder))
         else Inl TypeError) \<and>
      getAssetBalance ch this assetId holder \<noteq> Inl TypeError \<and>
      getAssetAllowance ch this assetId holder \<noteq> Inl TypeError \<and>
      (interface (erc20Contracts this ! nat assetId) = ERC20PermitABI \<longrightarrow>
         getUserNonce ch this assetId holder \<noteq> Inl TypeError) \<and>
      (\<forall>n. read_balanceOf ch (erc20Contracts this ! nat assetId) (toString holder) = Inr n
           \<longrightarrow> getAssetBalance ch this assetId holder = Inr n) \<and>
      (\<forall>n. read_allowance ch (erc20Contracts this ! nat assetId) (toString holder)
             (toString (rollupContractAddress this)) = Inr n
           \<longrightarrow> getAssetAllowance ch this assetId holder = Inr n) \<and>
      (\<forall>n. interface (erc20Contracts this ! nat assetId) = ERC20PermitABI \<and>
           read_nonces ch (erc20Contracts this ! nat assetId) (toString holder) = Inr n
           \<longrightarrow> getUserNonce ch this assetId holder = Inr n))
   \<and> (\<not> (0 \<le> assetId \<and> assetId < int (length (erc20Contracts this))) \<longrightarrow>
      getAssetBalance ch this assetId holder = Inl TypeError \<and>
      getAssetAllowance ch this assetId holder = Inl TypeError \<and>
      getUserNonce ch this assetId holder = Inl TypeError)
   \<and> getAssetBalance ch (constructor rollupAddress) assetId holder = Inl TypeError
   \<and> getAssetAllowance ch (constructor rollupAddress) assetId holder = Inl TypeError
   \<and> getUserNonce ch (constructor rollupAddress) assetId holder = Inl TypeError"
  by (simp add: getAssetBalance_def getAssetAllowance_def getUserNonce_def arrayIndex_def
        await_not_TypeError await_Inr_iff constructor_def Let_def)

theorem asset_reads_by_index_witness:
  "getAssetBalance exampleChain
     (snd (init exampleChain (\<lambda>i. 2 - i) (constructor (EthAddress ''0xe0'')))) 1
     (EthAddress ''0xd1'') = Inr 100
   \<and> getAssetAllowance exampleChain
     (snd (init exampleChain (\<lambda>i. 2 - i) (constructor (EthAddress ''0xe0'')))) 0
     (EthAddress ''0xd1'') = Inr 50
   \<and> getUserNonce exampleChain
     (snd (init exampleChain (\<lambda>i. 2 - i) (constructor (EthAddress ''0xe0'')))) 1
     (EthAddress ''0xd1'') = Inr 7
   \<and> getAssetBalance exampleChain
     (snd (init exampleChain (\<lambda>i. 2 - i) (constructor (EthAddress ''0xe0'')))) 2
     (EthAddress ''0xd1'') = Inl TypeError
   \<and> getUserNonce exampleChain
     (snd (init exampleChain (\<lambda>i. 2 - i) (constructor (EthAddress ''0xe0'')))) (- 1)
     (EthAddress ''0xd1'') = Inl TypeError
   \<and> getAssetAllowance exampleChain (constructor (EthAddress ''0xe0'')) 0
     (EthAddress ''0xd1'') = Inl TypeError"
  using asset_reads_by_index [of 1 "snd (init exampleChain (\<lambda>i. 2 - i) (constructor (EthAddress ''0xe0'')))"
          exampleChain "EthAddress ''0xd1''" "EthAddress ''0xe0''"]
        asset_reads_by_index [of 0 "snd (init exampleChain (\<lambda>i. 2 - i) (constructor (EthAddress ''0xe0'')))"
          exampleChain "EthAddress ''0xd1''" "EthAddress ''0xe0''"]
        asset_reads_by_index [of 2 "snd (init exampleChain (\<lambda>i. 2 - i) (constructor (EthAddress ''0xe0'')))"
          exampleChain "EthAddress ''0xd1''" "EthAddress ''0xe0''"]
        asset_reads_by_index [of "- 1" "snd (init exampleChain (\<lambda>i. 2 - i) (constructor (EthAddress ''0xe0'')))"
          exampleChain "EthAddress ''0xd1''" "EthAddress ''0xe0''"]
  unfolding example_init
  by (simp add: exampleChain_def await_def)

text \<open>
  The claim as it was stated fails for \<open>getUserNonce\<close>: after \<open>init\<close> on the example
  chain, asset 0 is inside the cache, its handle is made from the plain interface, and
  the chain would answer the read of \<open>nonces\<close> on that handle with 7; yet
  \<open>getUserNonce\<close> fails with a \<open>TypeError\<close>.
\<close>

theorem getUserNonce_plain_handle_counterexample:
  "arrayIndex
     (erc20Contracts (snd (init exampleChain (\<lambda>i. 2 - i) (constructor (EthAddress ''0xe0'')))))
     0 = Some (Contract ''0xa1'' ERC20ABI Provider)
   \<and> read_nonces exampleChain (Contract ''0xa1'' ERC20ABI Provider) ''0xd1'' = Inr 7
   \<and> getUserNonce exampleChain
       (snd (init exampleChain (\<lambda>i. 2 - i) (constructor (EthAddress ''0xe0'')))) 0
       (EthAddress ''0xd1'') = Inl TypeError
   \<and> getUserNonce exampleChain
       (snd (init exampleChain (\<lambda>i. 2 - i) (constructor (EthAddress ''0xe0'')))) 0
       (EthAddress ''0xd1'') \<noteq>
     await (read_nonces exampleChain (Contract ''0xa1'' ERC20ABI Provider) ''0xd1'')"
  unfolding example_init
  by (simp add: getUserNonce_def arrayIndex_def exampleChain_def await_def)

end
